theory Spec2Isabelle
  imports Complex_Main "HOL-Library.Monad_Syntax"
begin

section \<open>The form-and-result view of \<^verbatim>\<open>src/frontend/legacy-app.tsx\<close>\<close>

text \<open>
  The file holds one React component, \<^verbatim>\<open>App\<close>: six state variables, the asynchronous
  submit handler \<^verbatim>\<open>handleSubmit\<close>, the inline component \<^verbatim>\<open>CreativeDisplay\<close> and the
  element tree that \<^verbatim>\<open>App\<close> returns. The handler is embedded as the sequence of effects it
  performs (state setters and the outbound request), the view as the element tree.
\<close>

subsection \<open>JavaScript values\<close>

text \<open>
  The component is untyped: the parsed response body, the value caught by \<^verbatim>\<open>catch\<close> and
  its \<^verbatim>\<open>message\<close> are arbitrary JavaScript values. A number is the rational it denotes
  (\<^verbatim>\<open>JSON.parse\<close> yields finite numbers only); an object is the list of its properties.
\<close>

datatype jsval =
    Undefined
  | Null
  | Bool bool
  | Num rat
  | Str string
  | Arr "jsval list"
  | Obj "(string \<times> jsval) list"

text \<open>What \<^verbatim>\<open>a && b\<close> and \<^verbatim>\<open>c ? x : y\<close> test: every value is truthy except
  \<^verbatim>\<open>undefined\<close>, \<^verbatim>\<open>null\<close>, \<^verbatim>\<open>false\<close>, \<^verbatim>\<open>0\<close> and the empty string.\<close>

fun truthy :: "jsval \<Rightarrow> bool" where
  "truthy Undefined = False"
| "truthy Null = False"
| "truthy (Bool b) = b"
| "truthy (Num n) = (n \<noteq> 0)"
| "truthy (Str s) = (s \<noteq> [])"
| "truthy (Arr xs) = True"
| "truthy (Obj kvs) = True"

text \<open>The only exception the language itself raises in this file: reading a property of
  \<^verbatim>\<open>undefined\<close> or \<^verbatim>\<open>null\<close>.\<close>

datatype runtime_error = TypeError

text \<open>
  Property read \<^verbatim>\<open>v.k\<close>, for the property names the file reads (\<^verbatim>\<open>message\<close>,
  \<^verbatim>\<open>ad_copy_1\<close>, \<^verbatim>\<open>ad_copy_2\<close>, \<^verbatim>\<open>creative_brief\<close>, \<^verbatim>\<open>performance_score\<close>), none of
  which a primitive or an array has: \<open>None\<close> is the thrown \<^verbatim>\<open>TypeError\<close>, a missing
  property reads as \<^verbatim>\<open>undefined\<close>.
\<close>

fun get_prop :: "jsval \<Rightarrow> string \<Rightarrow> jsval option" where
  "get_prop Undefined k = None"
| "get_prop Null k = None"
| "get_prop (Obj kvs) k = (case map_of kvs k of None \<Rightarrow> Some Undefined | Some v \<Rightarrow> Some v)"
| "get_prop v k = Some Undefined"

text \<open>\<^verbatim>\<open>new Error(m)\<close>: an object whose \<^verbatim>\<open>message\<close> is \<open>m\<close>.\<close>

definition Error_new :: "string \<Rightarrow> jsval" where
  "Error_new m = Obj [(''message'', Str m)]"

subsection \<open>View state (lines 7-12)\<close>

record view_state =
  programName :: string
  targetAudience :: string
  isLocalized :: bool
  isLoading :: bool
  creative :: jsval
  error :: jsval

definition initial_state :: view_state where
  "initial_state =
     \<lparr>programName = [], targetAudience = [], isLocalized = False,
      isLoading = False, creative = Null, error = Str []\<rparr>"

subsection \<open>The outbound request and its outcome\<close>

text \<open>The request body is the text \<^verbatim>\<open>JSON.stringify\<close> makes of a value; the serialiser
  belongs to the runtime, so the text is kept as the value it serialises.\<close>

datatype json_text = JSON_stringify jsval

record request =
  url :: string
  "method" :: string
  headers :: "(string \<times> string) list"
  body :: json_text

text \<open>An awaited promise either rejects with a reason or fulfils with a value.\<close>

datatype 'a promise = Rejects jsval | Fulfils 'a

text \<open>Of the response the handler reads \<^verbatim>\<open>ok\<close> and awaits \<^verbatim>\<open>json()\<close>.\<close>

record response =
  ok :: bool
  json :: "jsval promise"

subsection \<open>Effects of the handlers\<close>

datatype action =
    PreventDefault
  | SetProgramName string
  | SetTargetAudience string
  | SetIsLocalized bool
  | SetIsLoading bool
  | SetError jsval
  | SetCreative jsval
  | Fetch request

fun apply_action :: "action \<Rightarrow> view_state \<Rightarrow> view_state" where
  "apply_action PreventDefault st = st"
| "apply_action (SetProgramName v) st = st\<lparr>programName := v\<rparr>"
| "apply_action (SetTargetAudience v) st = st\<lparr>targetAudience := v\<rparr>"
| "apply_action (SetIsLocalized b) st = st\<lparr>isLocalized := b\<rparr>"
| "apply_action (SetIsLoading b) st = st\<lparr>isLoading := b\<rparr>"
| "apply_action (SetError v) st = st\<lparr>error := v\<rparr>"
| "apply_action (SetCreative v) st = st\<lparr>creative := v\<rparr>"
| "apply_action (Fetch r) st = st"

text \<open>The state after a sequence of effects, in order.\<close>

definition run :: "action list \<Rightarrow> view_state \<Rightarrow> view_state" where
  "run acts st = fold apply_action acts st"

text \<open>The requests a sequence of effects sends, in order.\<close>

fun requests :: "action list \<Rightarrow> request list" where
  "requests [] = []"
| "requests (Fetch r # acts) = r # requests acts"
| "requests (a # acts) = requests acts"

subsection \<open>Field updates (lines 63, 74, 84)\<close>

definition onChange_programName :: "string \<Rightarrow> action list" where
  "onChange_programName v = [SetProgramName v]"

definition onChange_targetAudience :: "string \<Rightarrow> action list" where
  "onChange_targetAudience v = [SetTargetAudience v]"

definition onChange_isLocalized :: "bool \<Rightarrow> action list" where
  "onChange_isLocalized checked = [SetIsLocalized checked]"

subsection \<open>\<^verbatim>\<open>handleSubmit\<close> (lines 22-47)\<close>

text \<open>Lines 23-37, up to the first \<^verbatim>\<open>await\<close>. The three inputs are the values of the
  render whose handler runs.\<close>

definition handleSubmit_request :: "view_state \<Rightarrow> request" where
  "handleSubmit_request st =
     \<lparr>url = ''http://127.0.0.1:8000/generate'', method = ''POST'',
      headers = [(''Content-Type'', ''application/json'')],
      body = JSON_stringify (Obj
        [(''program_name'', Str (programName st)),
         (''target_audience'', Str (targetAudience st)),
         (''localize'', Bool (isLocalized st))])\<rparr>"

definition handleSubmit_begin :: "view_state \<Rightarrow> action list" where
  "handleSubmit_begin st =
     [PreventDefault, SetIsLoading True, SetError (Str []), SetCreative Null,
      Fetch (handleSubmit_request st)]"

text \<open>Lines 29-41 after the request was sent: the effects of the \<^verbatim>\<open>try\<close> block and
  the value it throws, if any.\<close>

definition try_block :: "response promise \<Rightarrow> action list \<times> jsval option" where
  "try_block fetched =
     (case fetched of
        Rejects reason \<Rightarrow> ([], Some reason)
      | Fulfils response \<Rightarrow>
          if \<not> ok response then ([], Some (Error_new ''Failed to generate creative.''))
          else (case json response of
                  Rejects reason \<Rightarrow> ([], Some reason)
                | Fulfils data \<Rightarrow> ([SetCreative data], None)))"

text \<open>Lines 42-43: \<^verbatim>\<open>setError(err.message)\<close>; the property read can itself throw.\<close>

definition catch_block :: "jsval \<Rightarrow> action list \<times> runtime_error option" where
  "catch_block err =
     (case get_prop err ''message'' of
        None \<Rightarrow> ([], Some TypeError)
      | Some m \<Rightarrow> ([SetError m], None))"

text \<open>Lines 44-45.\<close>

definition finally_block :: "action list" where
  "finally_block = [SetIsLoading False]"

text \<open>The handler from the first \<^verbatim>\<open>await\<close> on: its effects, and the exception that
  leaves it (\<open>None\<close> when it returns normally). \<^verbatim>\<open>finally\<close> runs in every case.\<close>

definition handleSubmit_settle :: "response promise \<Rightarrow> action list \<times> runtime_error option" where
  "handleSubmit_settle fetched =
     (case try_block fetched of
        (acts, None) \<Rightarrow> (acts @ finally_block, None)
      | (acts, Some err) \<Rightarrow>
          (case catch_block err of
             (acts', escaped) \<Rightarrow> (acts @ acts' @ finally_block, escaped)))"

definition handleSubmit :: "view_state \<Rightarrow> response promise \<Rightarrow> action list \<times> runtime_error option" where
  "handleSubmit st fetched =
     (handleSubmit_begin st @ fst (handleSubmit_settle fetched), snd (handleSubmit_settle fetched))"

text \<open>The view state when the handler starts waiting, and when the request has settled.\<close>

definition submitting :: "view_state \<Rightarrow> view_state" where
  "submitting st = run (handleSubmit_begin st) st"

definition settled :: "view_state \<Rightarrow> response promise \<Rightarrow> view_state" where
  "settled st fetched = run (fst (handleSubmit st fetched)) st"

subsection \<open>The element tree \<^verbatim>\<open>App\<close> returns (lines 15-20, 49-114)\<close>

text \<open>
  A node is an element (tag, attributes, children) or a value placed between braces.
  Attributes that are functions (\<^verbatim>\<open>onSubmit\<close>, \<^verbatim>\<open>onChange\<close>) are not part of the tree
  here; they are the handlers above.
\<close>

datatype node =
    Child jsval
  | Element string "(string \<times> jsval) list" "node list"

definition CreativeDisplay :: "jsval \<Rightarrow> jsval \<Rightarrow> node" where
  "CreativeDisplay title content =
     Element ''div'' [(''className'', Str ''creative-card'')]
       [Element ''h4'' [] [Child title],
        Element ''p'' [] [Child content]]"

definition header :: node where
  "header =
     Element ''header'' [(''className'', Str ''app-header'')]
       [Element ''h1'' [] [Child (Str ''AI Marketing Creative Engine'')],
        Element ''p'' []
          [Child (Str ''Generate on-brand and localized marketing content instantly.'')]]"

definition submit_button :: "view_state \<Rightarrow> node" where
  "submit_button st =
     Element ''button'' [(''type'', Str ''submit''), (''disabled'', Bool (isLoading st))]
       [Child (Str (if isLoading st then ''Generating...'' else ''Generate Creatives''))]"

definition input_form :: "view_state \<Rightarrow> node" where
  "input_form st =
     Element ''form'' [(''className'', Str ''input-form'')]
       [Element ''div'' [(''className'', Str ''form-group'')]
          [Element ''label'' [] [Child (Str ''Program Name:'')],
           Element ''input''
             [(''type'', Str ''text''), (''value'', Str (programName st)),
              (''placeholder'', Str (''e.g., Data Science Master'' @ [CHR 0x27] @ ''s'')),
              (''required'', Bool True)] []],
        Element ''div'' [(''className'', Str ''form-group'')]
          [Element ''label'' [] [Child (Str ''Target Audience:'')],
           Element ''input''
             [(''type'', Str ''text''), (''value'', Str (targetAudience st)),
              (''placeholder'', Str ''e.g., Working professionals in Bangalore''),
              (''required'', Bool True)] []],
        Element ''div'' [(''className'', Str ''form-group checkbox-group'')]
          [Element ''input''
             [(''type'', Str ''checkbox''), (''checked'', Bool (isLocalized st))] [],
           Element ''label'' [] [Child (Str ''Localize for a different market'')]],
        submit_button st]"

text \<open>Line 94: \<^verbatim>\<open>error && <div ...>\<close> is the \<^verbatim>\<open>div\<close> when \<^verbatim>\<open>error\<close> is truthy and the
  value of \<^verbatim>\<open>error\<close> itself otherwise.\<close>

definition error_slot :: "view_state \<Rightarrow> node" where
  "error_slot st =
     (if truthy (error st)
      then Element ''div'' [(''className'', Str ''error-message'')] [Child (error st)]
      else Child (error st))"

text \<open>Line 107: the paragraph of the predicted click-through rate.\<close>

definition ctr_line :: "jsval \<Rightarrow> node" where
  "ctr_line score =
     Element ''p'' []
       [Child (Str ''Predicted Click-Through Rate (CTR): ''), Child score, Child (Str ''%'')]"

text \<open>Lines 97-110; the four property reads happen in source order and \<open>None\<close> is a
  \<^verbatim>\<open>TypeError\<close> thrown by one of them.\<close>

definition results_container :: "jsval \<Rightarrow> node option" where
  "results_container c =
     do {
       c1 \<leftarrow> get_prop c ''ad_copy_1'';
       c2 \<leftarrow> get_prop c ''ad_copy_2'';
       brief \<leftarrow> get_prop c ''creative_brief'';
       score \<leftarrow> get_prop c ''performance_score'';
       Some (Element ''div'' [(''className'', Str ''results-container'')]
         [Element ''h2'' [] [Child (Str ''Generated Creatives:'')],
          Element ''div'' [(''className'', Str ''creatives-grid'')]
            [CreativeDisplay (Str ''Ad Copy 1'') c1,
             CreativeDisplay (Str ''Ad Copy 2'') c2,
             CreativeDisplay (Str ''Creative Brief'') brief],
          Element ''div'' [(''className'', Str ''feedback-section'')]
            [Element ''h3'' [] [Child (Str ''Simulated Performance Dashboard'')],
             ctr_line score]])
     }"

text \<open>Line 96: \<^verbatim>\<open>creative && (...)\<close>.\<close>

definition results_slot :: "view_state \<Rightarrow> node option" where
  "results_slot st =
     (if truthy (creative st) then results_container (creative st)
      else Some (Child (creative st)))"

definition App :: "view_state \<Rightarrow> node option" where
  "App st =
     do {
       results \<leftarrow> results_slot st;
       Some (Element ''div'' [(''className'', Str ''app-container'')]
         [header,
          Element ''main'' [(''className'', Str ''main-content'')]
            [input_form st, error_slot st, results]])
     }"

subsection \<open>What the browser shows\<close>

text \<open>
  React prints a string child as it is and a number child as the text the runtime makes of
  it (the parameter \<open>num_to_string\<close>, JavaScript's \<^verbatim>\<open>String\<close> on numbers); it prints
  nothing for \<^verbatim>\<open>undefined\<close>, \<^verbatim>\<open>null\<close>, \<^verbatim>\<open>true\<close> and \<^verbatim>\<open>false\<close>, prints the members
  of an array one after the other, and refuses an object (\<open>None\<close>).
\<close>

fun child_text :: "(rat \<Rightarrow> string) \<Rightarrow> jsval \<Rightarrow> string option" where
  "child_text num_to_string (Str s) = Some s"
| "child_text num_to_string (Num n) = Some (num_to_string n)"
| "child_text num_to_string Undefined = Some []"
| "child_text num_to_string Null = Some []"
| "child_text num_to_string (Bool b) = Some []"
| "child_text num_to_string (Arr vs) =
     map_option concat (those (map (child_text num_to_string) vs))"
| "child_text num_to_string (Obj kvs) = None"

fun text_content :: "(rat \<Rightarrow> string) \<Rightarrow> node \<Rightarrow> string option" where
  "text_content num_to_string (Child v) = child_text num_to_string v"
| "text_content num_to_string (Element tag attrs kids) =
     map_option concat (those (map (text_content num_to_string) kids))"

text \<open>Whether a slot of the view holds an element, that is, whether its block is there.\<close>

fun is_element :: "node \<Rightarrow> bool" where
  "is_element (Element tag attrs kids) = True"
| "is_element (Child v) = False"

subsection \<open>Presence of the two outcomes\<close>

text \<open>The result and the error are present when the view shows them (lines 94 and 96),
  absent otherwise; the reset values \<^verbatim>\<open>null\<close> and \<^verbatim>\<open>""\<close> are absent.\<close>

definition result_present :: "view_state \<Rightarrow> bool" where
  "result_present st = truthy (creative st)"

definition error_present :: "view_state \<Rightarrow> bool" where
  "error_present st = truthy (error st)"

subsection \<open>The response of the specification's example\<close>

text \<open>The body \<^verbatim>\<open>{ad_copy_1:"A", ad_copy_2:"B", creative_brief:"C", performance_score:12.5}\<close>.\<close>

definition sample_body :: jsval where
  "sample_body = Obj
     [(''ad_copy_1'', Str ''A''), (''ad_copy_2'', Str ''B''),
      (''creative_brief'', Str ''C''), (''performance_score'', Num (25 / 2))]"

section \<open>Facts about the handler\<close>

lemma submitting_eq:
  "submitting st = st\<lparr>isLoading := True, error := Str [], creative := Null\<rparr>"
  by (simp add: submitting_def handleSubmit_begin_def run_def)

lemma run_append: "run (xs @ ys) st = run ys (run xs st)"
  by (simp add: run_def)

lemma settled_eq: "settled st f = run (fst (handleSubmit_settle f)) (submitting st)"
  by (simp add: settled_def handleSubmit_def submitting_def run_append)

lemma handleSubmit_escaped: "snd (handleSubmit st f) = snd (handleSubmit_settle f)"
  by (simp add: handleSubmit_def)

text \<open>The four ways through the \<^verbatim>\<open>try\<close> block: the request fails, the status is not ok,
  the body does not parse, the body parses.\<close>

lemma try_block_cases:
  "try_block (Rejects reason) = ([], Some reason)"
  "\<not> ok r \<Longrightarrow> try_block (Fulfils r) = ([], Some (Error_new ''Failed to generate creative.''))"
  "ok r \<Longrightarrow> json r = Rejects reason \<Longrightarrow> try_block (Fulfils r) = ([], Some reason)"
  "ok r \<Longrightarrow> json r = Fulfils d \<Longrightarrow> try_block (Fulfils r) = ([SetCreative d], None)"
  by (simp_all add: try_block_def)

lemma try_block_outcomes:
  "(\<exists>d. try_block f = ([SetCreative d], None)) \<or> (\<exists>err. try_block f = ([], Some err))"
  by (auto simp: try_block_def split: promise.splits)

lemma try_block_thrown_no_effect: "snd (try_block f) = Some err \<Longrightarrow> fst (try_block f) = []"
  by (auto simp: try_block_def split: promise.splits if_splits)

lemma get_prop_Error_new: "get_prop (Error_new m) ''message'' = Some (Str m)"
  by (simp add: Error_new_def)

lemma get_prop_None_iff: "get_prop v k = None \<longleftrightarrow> v = Undefined \<or> v = Null"
  by (cases v) (simp_all split: option.splits)

lemma get_prop_truthy: "truthy c \<Longrightarrow> \<exists>v. get_prop c k = Some v"
  by (cases c) (simp_all split: option.splits)

lemma settle_success:
  "try_block f = ([SetCreative d], None) \<Longrightarrow>
     handleSubmit_settle f = ([SetCreative d, SetIsLoading False], None)"
  by (simp add: handleSubmit_settle_def finally_block_def)

lemma settle_caught:
  "snd (try_block f) = Some err \<Longrightarrow> get_prop err ''message'' = Some m \<Longrightarrow>
     handleSubmit_settle f = ([SetError m, SetIsLoading False], None)"
  using try_block_thrown_no_effect [of f err]
  by (cases "try_block f") (simp add: handleSubmit_settle_def catch_block_def finally_block_def)

lemma settle_escaped:
  "snd (try_block f) = Some err \<Longrightarrow> get_prop err ''message'' = None \<Longrightarrow>
     handleSubmit_settle f = ([SetIsLoading False], Some TypeError)"
  using try_block_thrown_no_effect [of f err]
  by (cases "try_block f") (simp add: handleSubmit_settle_def catch_block_def finally_block_def)

lemma settle_ends_with_finally:
  "\<exists>acts. fst (handleSubmit_settle f) = acts @ finally_block"
  by (auto simp: handleSubmit_settle_def split: prod.splits option.splits)

lemma settled_success:
  "ok r \<Longrightarrow> json r = Fulfils d \<Longrightarrow>
     settled st (Fulfils r) = st\<lparr>isLoading := False, error := Str [], creative := d\<rparr>"
  by (simp add: settled_eq submitting_eq settle_success try_block_cases run_def)

lemma settled_caught:
  "snd (try_block f) = Some err \<Longrightarrow> get_prop err ''message'' = Some m \<Longrightarrow>
     settled st f = st\<lparr>isLoading := False, error := m, creative := Null\<rparr>"
  by (simp add: settled_eq submitting_eq settle_caught run_def)

lemma settled_escaped:
  "snd (try_block f) = Some err \<Longrightarrow> get_prop err ''message'' = None \<Longrightarrow>
     settled st f = st\<lparr>isLoading := False, error := Str [], creative := Null\<rparr>"
  by (simp add: settled_eq submitting_eq settle_escaped run_def)

text \<open>Whatever the outcome, the settled state holds a result with the error still reset,
  or an error value with the result still reset.\<close>

lemma settled_shape:
  "(\<exists>d. settled st f = st\<lparr>isLoading := False, error := Str [], creative := d\<rparr>) \<or>
   (\<exists>m. settled st f = st\<lparr>isLoading := False, error := m, creative := Null\<rparr>)"
proof -
  consider d where "try_block f = ([SetCreative d], None)"
    | err where "try_block f = ([], Some err)"
    using try_block_outcomes [of f] by blast
  then show ?thesis
  proof cases
    case 1
    then have "settled st f = st\<lparr>isLoading := False, error := Str [], creative := d\<rparr>"
      by (simp add: settled_eq submitting_eq settle_success run_def)
    then show ?thesis by blast
  next
    case 2
    then have thrown: "snd (try_block f) = Some err" by simp
    show ?thesis
    proof (cases "get_prop err ''message''")
      case None
      with thrown show ?thesis using settled_escaped [of f err st] by blast
    next
      case (Some m)
      with thrown show ?thesis using settled_caught [of f err m st] by blast
    qed
  qed
qed

lemma settled_not_loading: "\<not> isLoading (settled st f)"
proof -
  obtain acts where "fst (handleSubmit_settle f) = acts @ finally_block"
    using settle_ends_with_finally by blast
  then show ?thesis
    by (simp add: settled_eq run_append finally_block_def run_def)
qed

lemma requests_append: "requests (xs @ ys) = requests xs @ requests ys"
  by (induction xs rule: requests.induct) simp_all

lemma requests_settle: "requests (fst (handleSubmit_settle f)) = []"
proof -
  consider d where "try_block f = ([SetCreative d], None)"
    | err where "try_block f = ([], Some err)"
    using try_block_outcomes [of f] by blast
  then show ?thesis
    by cases (auto simp: handleSubmit_settle_def catch_block_def finally_block_def
        split: option.splits)
qed

text \<open>Rendering never throws: the result block reads properties of a truthy value only,
  and the view is the header, the form, the error slot and the result slot.\<close>

lemma results_slot_total: "\<exists>results. results_slot st = Some results"
proof (cases "truthy (creative st)")
  case True
  then obtain c1 c2 brief where cards:
    "get_prop (creative st) ''ad_copy_1'' = Some c1"
    "get_prop (creative st) ''ad_copy_2'' = Some c2"
    "get_prop (creative st) ''creative_brief'' = Some brief"
    using get_prop_truthy by blast
  from True obtain score where
    "get_prop (creative st) ''performance_score'' = Some score"
    using get_prop_truthy by blast
  with True cards show ?thesis
    by (simp add: results_slot_def results_container_def)
next
  case False
  then show ?thesis by (simp add: results_slot_def)
qed

lemma App_slots:
  "\<exists>results. results_slot st = Some results
     \<and> App st = Some (Element ''div'' [(''className'', Str ''app-container'')]
         [header,
          Element ''main'' [(''className'', Str ''main-content'')]
            [input_form st, error_slot st, results]])"
  using results_slot_total [of st] by (auto simp: App_def)

section \<open>The claims\<close>

subsection \<open>C1: terminal states\<close>

text \<open>
  C1 says that a settled request leaves exactly one of result and error present. A failure
  whose message is the empty string leaves both absent.
\<close>

theorem settled_exactly_one_counterexample:
  "\<not> (result_present (settled initial_state (Rejects (Error_new [])))
       \<noteq> error_present (settled initial_state (Rejects (Error_new []))))"
  by (simp add: settled_caught [where err = "Error_new []"] try_block_cases get_prop_Error_new
      result_present_def error_present_def initial_state_def)

text \<open>
  C1, as the code has it: when the request settles, result and error are never both present.
  After an ok response whose body parses to \<open>d\<close> the error is absent and the result is
  present exactly when \<open>d\<close> is truthy; after a thrown failure with message \<open>m\<close> the result
  is absent and the error is present exactly when \<open>m\<close> is truthy (a non-empty text).
\<close>

theorem settled_at_most_one:
  "\<not> (result_present (settled st f) \<and> error_present (settled st f))
   \<and> (ok r \<and> json r = Fulfils d \<longrightarrow>
        result_present (settled st (Fulfils r)) = truthy d
        \<and> \<not> error_present (settled st (Fulfils r)))
   \<and> (snd (try_block f) = Some err \<and> get_prop err ''message'' = Some m \<longrightarrow>
        error_present (settled st f) = truthy m
        \<and> \<not> result_present (settled st f))"
proof -
  have "\<not> (result_present (settled st f) \<and> error_present (settled st f))"
    using settled_shape [of st f]
    by (auto simp: result_present_def error_present_def)
  moreover have "ok r \<and> json r = Fulfils d \<longrightarrow>
        result_present (settled st (Fulfils r)) = truthy d
        \<and> \<not> error_present (settled st (Fulfils r))"
    by (simp add: settled_success result_present_def error_present_def)
  moreover have "snd (try_block f) = Some err \<and> get_prop err ''message'' = Some m \<longrightarrow>
        error_present (settled st f) = truthy m
        \<and> \<not> result_present (settled st f)"
    by (simp add: settled_caught result_present_def error_present_def)
  ultimately show ?thesis by blast
qed

theorem settled_at_most_one_witness:
  "result_present (settled initial_state
       (Fulfils \<lparr>ok = True, json = Fulfils (Obj [(''ad_copy_1'', Str ''A'')])\<rparr>))
   \<and> \<not> error_present (settled initial_state
       (Fulfils \<lparr>ok = True, json = Fulfils (Obj [(''ad_copy_1'', Str ''A'')])\<rparr>))
   \<and> error_present (settled initial_state (Rejects (Error_new ''network down'')))
   \<and> \<not> result_present (settled initial_state (Rejects (Error_new ''network down'')))"
  using settled_at_most_one [of initial_state "Rejects (Error_new ''network down'')"
      "\<lparr>ok = True, json = Fulfils (Obj [(''ad_copy_1'', Str ''A'')])\<rparr>"
      "Obj [(''ad_copy_1'', Str ''A'')]" "Error_new ''network down''" "Str ''network down''"]
  by (simp add: try_block_def Error_new_def)

subsection \<open>C2: a success response with a malformed body\<close>

text \<open>
  C2 says that the parse failure of a malformed success body leaves the handler uncaught
  instead of being stored as the error. \<^verbatim>\<open>await response.json()\<close> stands inside the
  \<^verbatim>\<open>try\<close> block: the handler returns normally and the message is the error.
\<close>

theorem parse_failure_escapes_counterexample:
  "\<not> (snd (handleSubmit initial_state
            (Fulfils \<lparr>ok = True, json = Rejects (Error_new ''Unexpected end of JSON input'')\<rparr>))
         \<noteq> None
       \<and> error (settled initial_state
            (Fulfils \<lparr>ok = True, json = Rejects (Error_new ''Unexpected end of JSON input'')\<rparr>))
         \<noteq> Str ''Unexpected end of JSON input'')"
  by (simp add: handleSubmit_escaped
      settle_caught [where err = "Error_new ''Unexpected end of JSON input''"]
      try_block_cases get_prop_Error_new)

text \<open>
  C2, as the code has it: when an ok response carries a malformed body, the parse failure is
  caught by the handler: nothing leaves it, the failure's message becomes the error, the
  result stays absent and loading ends.
\<close>

theorem parse_failure_caught:
  assumes "ok r" and "json r = Rejects reason" and "get_prop reason ''message'' = Some m"
  shows "snd (handleSubmit st (Fulfils r)) = None
         \<and> settled st (Fulfils r) = st\<lparr>isLoading := False, error := m, creative := Null\<rparr>"
proof -
  from assms(1,2) have thrown: "snd (try_block (Fulfils r)) = Some reason"
    by (simp add: try_block_cases)
  from thrown assms(3)
  have "handleSubmit_settle (Fulfils r) = ([SetError m, SetIsLoading False], None)"
    by (rule settle_caught)
  then have "snd (handleSubmit st (Fulfils r)) = None"
    by (simp add: handleSubmit_escaped)
  moreover from thrown assms(3)
  have "settled st (Fulfils r) = st\<lparr>isLoading := False, error := m, creative := Null\<rparr>"
    by (rule settled_caught)
  ultimately show ?thesis by simp
qed

theorem parse_failure_caught_witness:
  "snd (handleSubmit initial_state
      (Fulfils \<lparr>ok = True, json = Rejects (Error_new ''Unexpected token < in JSON'')\<rparr>)) = None
   \<and> settled initial_state
      (Fulfils \<lparr>ok = True, json = Rejects (Error_new ''Unexpected token < in JSON'')\<rparr>)
     = initial_state\<lparr>isLoading := False, error := Str ''Unexpected token < in JSON'',
         creative := Null\<rparr>"
  using parse_failure_caught
    [of "\<lparr>ok = True, json = Rejects (Error_new ''Unexpected token < in JSON'')\<rparr>"
        "Error_new ''Unexpected token < in JSON''" "Str ''Unexpected token < in JSON''"
        initial_state]
  by (simp add: get_prop_Error_new)

subsection \<open>C3: the message of a thrown failure\<close>

text \<open>
  C3: on each of the three throwing paths (the request fails with \<open>reason\<close>, the status is
  not ok, the body fails to parse with \<open>reason\<close>) the message of what was thrown becomes the
  error and the result stays absent; a network failure with message "network down" makes
  the view show the error block with the text "network down".
\<close>

theorem thrown_message_stored:
  "(get_prop reason ''message'' = Some m \<longrightarrow>
      error (settled st (Rejects reason)) = m \<and> creative (settled st (Rejects reason)) = Null)
   \<and> (\<not> ok r \<longrightarrow>
      error (settled st (Fulfils r)) = Str ''Failed to generate creative.''
      \<and> creative (settled st (Fulfils r)) = Null)
   \<and> (ok r \<and> json r = Rejects reason \<and> get_prop reason ''message'' = Some m \<longrightarrow>
      error (settled st (Fulfils r)) = m \<and> creative (settled st (Fulfils r)) = Null)
   \<and> error_slot (settled st (Rejects (Error_new ''network down'')))
       = Element ''div'' [(''className'', Str ''error-message'')] [Child (Str ''network down'')]
   \<and> text_content num_to_string (error_slot (settled st (Rejects (Error_new ''network down''))))
       = Some ''network down''"
proof -
  have network: "get_prop reason ''message'' = Some m \<longrightarrow>
      error (settled st (Rejects reason)) = m \<and> creative (settled st (Rejects reason)) = Null"
    by (simp add: settled_caught [where err = reason] try_block_cases)
  have status: "\<not> ok r \<longrightarrow>
      error (settled st (Fulfils r)) = Str ''Failed to generate creative.''
      \<and> creative (settled st (Fulfils r)) = Null"
    by (simp add: settled_caught [where err = "Error_new ''Failed to generate creative.''"]
        try_block_cases get_prop_Error_new)
  have parse: "ok r \<and> json r = Rejects reason \<and> get_prop reason ''message'' = Some m \<longrightarrow>
      error (settled st (Fulfils r)) = m \<and> creative (settled st (Fulfils r)) = Null"
    by (simp add: settled_caught [where err = reason] try_block_cases)
  have down: "settled st (Rejects (Error_new ''network down''))
      = st\<lparr>isLoading := False, error := Str ''network down'', creative := Null\<rparr>"
    by (simp add: settled_caught [where err = "Error_new ''network down''"]
        try_block_cases get_prop_Error_new)
  have shown: "error_slot (settled st (Rejects (Error_new ''network down'')))
       = Element ''div'' [(''className'', Str ''error-message'')] [Child (Str ''network down'')]"
    by (simp add: down error_slot_def)
  have "text_content num_to_string (error_slot (settled st (Rejects (Error_new ''network down''))))
       = Some ''network down''"
    by (simp add: shown)
  with network status parse shown show ?thesis by blast
qed

theorem thrown_message_stored_witness:
  "error (settled initial_state (Rejects (Error_new ''Failed to fetch''))) = Str ''Failed to fetch''
   \<and> creative (settled initial_state (Rejects (Error_new ''Failed to fetch''))) = Null
   \<and> error (settled initial_state (Fulfils \<lparr>ok = False, json = Fulfils Null\<rparr>))
       = Str ''Failed to generate creative.''
   \<and> error (settled initial_state
        (Fulfils \<lparr>ok = True, json = Rejects (Error_new ''Failed to fetch'')\<rparr>))
       = Str ''Failed to fetch''"
  using thrown_message_stored [of "Error_new ''Failed to fetch''" "Str ''Failed to fetch''"
      initial_state "\<lparr>ok = False, json = Fulfils Null\<rparr>"]
    thrown_message_stored [of "Error_new ''Failed to fetch''" "Str ''Failed to fetch''"
      initial_state "\<lparr>ok = True, json = Rejects (Error_new ''Failed to fetch'')\<rparr>"]
  by (simp add: get_prop_Error_new)

subsection \<open>C4: a response that is not ok\<close>

text \<open>
  C4: when the response is not ok, whatever its body, the error is exactly
  "Failed to generate creative.", no result is stored, and the view shows the error block
  with that text and no result block.
\<close>

theorem non_ok_fixed_error:
  assumes "\<not> ok r"
  shows "error (settled st (Fulfils r)) = Str ''Failed to generate creative.''
         \<and> creative (settled st (Fulfils r)) = Null
         \<and> snd (handleSubmit st (Fulfils r)) = None
         \<and> error_slot (settled st (Fulfils r))
             = Element ''div'' [(''className'', Str ''error-message'')]
                 [Child (Str ''Failed to generate creative.'')]
         \<and> results_slot (settled st (Fulfils r)) = Some (Child Null)"
proof -
  from assms have thrown:
    "snd (try_block (Fulfils r)) = Some (Error_new ''Failed to generate creative.'')"
    by (simp add: try_block_cases)
  have state: "settled st (Fulfils r)
      = st\<lparr>isLoading := False, error := Str ''Failed to generate creative.'', creative := Null\<rparr>"
    using thrown get_prop_Error_new by (rule settled_caught)
  have "handleSubmit_settle (Fulfils r)
      = ([SetError (Str ''Failed to generate creative.''), SetIsLoading False], None)"
    using thrown get_prop_Error_new by (rule settle_caught)
  then have "snd (handleSubmit st (Fulfils r)) = None"
    by (simp add: handleSubmit_escaped)
  then show ?thesis
    by (simp add: state error_slot_def results_slot_def)
qed

theorem non_ok_fixed_error_witness:
  "error (settled initial_state
      (Fulfils \<lparr>ok = False, json = Fulfils (Obj [(''detail'', Str ''quota exceeded'')])\<rparr>))
     = Str ''Failed to generate creative.''
   \<and> results_slot (settled initial_state
      (Fulfils \<lparr>ok = False, json = Fulfils (Obj [(''detail'', Str ''quota exceeded'')])\<rparr>))
     = Some (Child Null)"
  using non_ok_fixed_error
    [of "\<lparr>ok = False, json = Fulfils (Obj [(''detail'', Str ''quota exceeded'')])\<rparr>"
        initial_state]
  by simp

subsection \<open>C5: the loading flag, and what leaves the handler\<close>

text \<open>
  C5: for every input, loading is true as soon as the handler waits for the response and
  false once the request has settled; setting it to false is the last effect of the handler
  on every path, the one where \<^verbatim>\<open>catch\<close> itself throws included. Nothing leaves the
  handler on the success path, nor on a failure path whose thrown value is an object or a
  primitive other than \<^verbatim>\<open>undefined\<close> and \<^verbatim>\<open>null\<close>, as the failures of \<^verbatim>\<open>fetch\<close>,
  of \<^verbatim>\<open>json()\<close> and of line 39 are.
\<close>

theorem loading_flag_and_no_escape:
  "isLoading (submitting st)
   \<and> \<not> isLoading (settled st f)
   \<and> (\<exists>acts. fst (handleSubmit st f) = acts @ [SetIsLoading False])
   \<and> ((\<forall>err. snd (try_block f) = Some err \<longrightarrow> err \<noteq> Undefined \<and> err \<noteq> Null)
        \<longrightarrow> snd (handleSubmit st f) = None)"
proof -
  have start: "isLoading (submitting st)"
    by (simp add: submitting_eq)
  have last_step: "\<exists>acts. fst (handleSubmit st f) = acts @ [SetIsLoading False]"
  proof -
    obtain acts where "fst (handleSubmit_settle f) = acts @ finally_block"
      using settle_ends_with_finally by blast
    then have "fst (handleSubmit st f) = (handleSubmit_begin st @ acts) @ [SetIsLoading False]"
      by (simp add: handleSubmit_def finally_block_def)
    then show ?thesis by blast
  qed
  have no_escape: "snd (handleSubmit st f) = None"
    if objects: "\<forall>err. snd (try_block f) = Some err \<longrightarrow> err \<noteq> Undefined \<and> err \<noteq> Null"
  proof -
    consider d where "try_block f = ([SetCreative d], None)"
      | err where "try_block f = ([], Some err)"
      using try_block_outcomes [of f] by blast
    then show ?thesis
    proof cases
      case 1
      then show ?thesis
        by (simp add: handleSubmit_escaped settle_success)
    next
      case 2
      then have thrown: "snd (try_block f) = Some err" by simp
      with objects have "get_prop err ''message'' \<noteq> None"
        by (simp add: get_prop_None_iff)
      then obtain m where "get_prop err ''message'' = Some m" by blast
      with thrown show ?thesis
        by (simp add: handleSubmit_escaped settle_caught)
    qed
  qed
  from start settled_not_loading last_step no_escape show ?thesis by blast
qed

theorem loading_flag_and_no_escape_witness:
  "isLoading (submitting (initial_state\<lparr>programName := ''MBA'', targetAudience := ''Students''\<rparr>))
   \<and> \<not> isLoading (settled (initial_state\<lparr>programName := ''MBA'', targetAudience := ''Students''\<rparr>)
          (Rejects (Error_new ''network down'')))
   \<and> snd (handleSubmit (initial_state\<lparr>programName := ''MBA'', targetAudience := ''Students''\<rparr>)
          (Rejects (Error_new ''network down''))) = None"
  using loading_flag_and_no_escape
    [of "initial_state\<lparr>programName := ''MBA'', targetAudience := ''Students''\<rparr>"
        "Rejects (Error_new ''network down'')"]
  by (simp add: try_block_def Error_new_def)

subsection \<open>C6: the reset at the start of a submission\<close>

text \<open>
  C6: whatever the state before, the effects of the handler up to the request send nothing,
  and after them loading is true, the error is the empty text and the result is
  \<^verbatim>\<open>null\<close>: both are absent when the request goes out.
\<close>

theorem reset_before_request:
  "\<exists>pre post. fst (handleSubmit st f) = pre @ Fetch (handleSubmit_request st) # post
     \<and> requests pre = []
     \<and> isLoading (run pre st)
     \<and> error (run pre st) = Str [] \<and> \<not> error_present (run pre st)
     \<and> creative (run pre st) = Null \<and> \<not> result_present (run pre st)"
proof -
  let ?pre = "[PreventDefault, SetIsLoading True, SetError (Str []), SetCreative Null]"
  have "fst (handleSubmit st f)
      = ?pre @ Fetch (handleSubmit_request st) # fst (handleSubmit_settle f)"
    by (simp add: handleSubmit_def handleSubmit_begin_def)
  moreover have "requests ?pre = []" by simp
  moreover have "run ?pre st = st\<lparr>isLoading := True, error := Str [], creative := Null\<rparr>"
    by (simp add: run_def)
  ultimately show ?thesis
    by (intro exI [of _ ?pre] exI [of _ "fst (handleSubmit_settle f)"])
       (simp add: error_present_def result_present_def)
qed

subsection \<open>C7: the request\<close>

text \<open>
  C7: on every path the handler sends exactly one request: a POST to
  \<^verbatim>\<open>http://127.0.0.1:8000/generate\<close> with content type JSON, whose body serialises the
  object of \<^verbatim>\<open>program_name\<close>, \<^verbatim>\<open>target_audience\<close> and \<^verbatim>\<open>localize\<close> taken from the three
  inputs; after the checkbox was set to \<open>checked\<close>, \<^verbatim>\<open>localize\<close> is \<open>checked\<close>.
\<close>

theorem one_post_request:
  "requests (fst (handleSubmit st f)) =
     [\<lparr>url = ''http://127.0.0.1:8000/generate'', method = ''POST'',
       headers = [(''Content-Type'', ''application/json'')],
       body = JSON_stringify (Obj
         [(''program_name'', Str (programName st)),
          (''target_audience'', Str (targetAudience st)),
          (''localize'', Bool (isLocalized st))])\<rparr>]
   \<and> requests (fst (handleSubmit (run (onChange_isLocalized checked) st) f)) =
     [\<lparr>url = ''http://127.0.0.1:8000/generate'', method = ''POST'',
       headers = [(''Content-Type'', ''application/json'')],
       body = JSON_stringify (Obj
         [(''program_name'', Str (programName st)),
          (''target_audience'', Str (targetAudience st)),
          (''localize'', Bool checked)])\<rparr>]"
proof -
  have "requests (fst (handleSubmit s f)) = [handleSubmit_request s]" for s
    by (simp add: handleSubmit_def requests_append requests_settle handleSubmit_begin_def)
  then show ?thesis
    by (simp add: handleSubmit_request_def onChange_isLocalized_def run_def)
qed

subsection \<open>C8: the view of the example response\<close>

text \<open>
  C8: after an ok response with the example body the result block holds exactly three
  cards, titled "Ad Copy 1", "Ad Copy 2" and "Creative Brief" with the contents "A", "B"
  and "C", the error block is not there, and, the runtime printing the number 12.5 as
  "12.5", the line of the rate reads "Predicted Click-Through Rate (CTR): 12.5%".
\<close>

theorem sample_success_view:
  assumes "num_to_string (25 / 2) = ''12.5''"
  shows "results_slot (settled st (Fulfils \<lparr>ok = True, json = Fulfils sample_body\<rparr>)) =
     Some (Element ''div'' [(''className'', Str ''results-container'')]
       [Element ''h2'' [] [Child (Str ''Generated Creatives:'')],
        Element ''div'' [(''className'', Str ''creatives-grid'')]
          [Element ''div'' [(''className'', Str ''creative-card'')]
             [Element ''h4'' [] [Child (Str ''Ad Copy 1'')], Element ''p'' [] [Child (Str ''A'')]],
           Element ''div'' [(''className'', Str ''creative-card'')]
             [Element ''h4'' [] [Child (Str ''Ad Copy 2'')], Element ''p'' [] [Child (Str ''B'')]],
           Element ''div'' [(''className'', Str ''creative-card'')]
             [Element ''h4'' [] [Child (Str ''Creative Brief'')],
              Element ''p'' [] [Child (Str ''C'')]]],
        Element ''div'' [(''className'', Str ''feedback-section'')]
          [Element ''h3'' [] [Child (Str ''Simulated Performance Dashboard'')],
           ctr_line (Num (25 / 2))]])
   \<and> text_content num_to_string (ctr_line (Num (25 / 2)))
       = Some ''Predicted Click-Through Rate (CTR): 12.5%''
   \<and> error_slot (settled st (Fulfils \<lparr>ok = True, json = Fulfils sample_body\<rparr>)) = Child (Str [])"
proof -
  have state: "settled st (Fulfils \<lparr>ok = True, json = Fulfils sample_body\<rparr>)
      = st\<lparr>isLoading := False, error := Str [], creative := sample_body\<rparr>"
    by (simp add: settled_success)
  have grid: "results_container sample_body =
     Some (Element ''div'' [(''className'', Str ''results-container'')]
       [Element ''h2'' [] [Child (Str ''Generated Creatives:'')],
        Element ''div'' [(''className'', Str ''creatives-grid'')]
          [CreativeDisplay (Str ''Ad Copy 1'') (Str ''A''),
           CreativeDisplay (Str ''Ad Copy 2'') (Str ''B''),
           CreativeDisplay (Str ''Creative Brief'') (Str ''C'')],
        Element ''div'' [(''className'', Str ''feedback-section'')]
          [Element ''h3'' [] [Child (Str ''Simulated Performance Dashboard'')],
           ctr_line (Num (25 / 2))]])"
    by (simp add: results_container_def sample_body_def)
  have line: "text_content num_to_string (ctr_line (Num (25 / 2)))
       = Some ''Predicted Click-Through Rate (CTR): 12.5%''"
    by (simp add: ctr_line_def assms)
  have "truthy sample_body" by (simp add: sample_body_def)
  then show ?thesis
    by (simp add: state results_slot_def grid CreativeDisplay_def line error_slot_def)
qed

theorem sample_success_view_witness:
  "text_content (\<lambda>n. if n = 25 / 2 then ''12.5'' else []) (ctr_line (Num (25 / 2)))
     = Some ''Predicted Click-Through Rate (CTR): 12.5%''
   \<and> error_slot (settled initial_state (Fulfils \<lparr>ok = True, json = Fulfils sample_body\<rparr>))
     = Child (Str [])"
  using sample_success_view [of "\<lambda>n. if n = 25 / 2 then ''12.5'' else []" initial_state]
  by simp

subsection \<open>C9: a failure with an empty message\<close>

text \<open>
  C9: when the thrown failure's message is the empty text or is missing, the error state
  receives that value, and the view holds neither the error block nor the result block:
  both slots are bare values that print as nothing.
\<close>

theorem empty_message_shows_nothing:
  assumes "snd (try_block f) = Some err" and "get_prop err ''message'' = Some m"
    and "m = Str [] \<or> m = Undefined"
  shows "error (settled st f) = m
         \<and> error_slot (settled st f) = Child m
         \<and> results_slot (settled st f) = Some (Child Null)
         \<and> text_content num_to_string (error_slot (settled st f)) = Some []
         \<and> text_content num_to_string (Child Null) = Some []"
proof -
  from assms(1,2)
  have state: "settled st f = st\<lparr>isLoading := False, error := m, creative := Null\<rparr>"
    by (rule settled_caught)
  from assms(3) have "\<not> truthy m" by auto
  with assms(3) show ?thesis
    by (auto simp: state error_slot_def results_slot_def)
qed

theorem empty_message_shows_nothing_witness:
  "error_slot (settled initial_state (Rejects (Error_new []))) = Child (Str [])
   \<and> results_slot (settled initial_state (Rejects (Error_new []))) = Some (Child Null)
   \<and> error_slot (settled initial_state (Rejects (Obj []))) = Child Undefined
   \<and> results_slot (settled initial_state (Rejects (Obj []))) = Some (Child Null)"
  using empty_message_shows_nothing [of "Rejects (Error_new [])" "Error_new []" "Str []" initial_state]
    empty_message_shows_nothing [of "Rejects (Obj [])" "Obj []" Undefined initial_state]
  by (simp add: try_block_def Error_new_def)

subsection \<open>C10: the score in the line of the rate\<close>

text \<open>
  C10: for every stored result, the line of the rate holds the fixed label, then the value
  of \<^verbatim>\<open>performance_score\<close> exactly as stored, then "%": no test, rounding or clamping
  stands between the state and the line. A number \<open>n\<close>, in or out of the range from 0 to
  100, is shown as the runtime prints \<open>n\<close>, and a text is shown as it is.
\<close>

theorem score_interpolated_unchanged:
  assumes "truthy (creative st)"
    and "get_prop (creative st) ''performance_score'' = Some score"
  shows "(\<exists>title grid heading. results_slot st =
           Some (Element ''div'' [(''className'', Str ''results-container'')]
             [title, grid,
              Element ''div'' [(''className'', Str ''feedback-section'')]
                [heading, ctr_line score]]))
         \<and> ctr_line score =
             Element ''p'' []
               [Child (Str ''Predicted Click-Through Rate (CTR): ''), Child score,
                Child (Str ''%'')]
         \<and> text_content num_to_string (ctr_line (Num n))
             = Some (''Predicted Click-Through Rate (CTR): '' @ num_to_string n @ ''%'')
         \<and> text_content num_to_string (ctr_line (Str s))
             = Some (''Predicted Click-Through Rate (CTR): '' @ s @ ''%'')"
proof -
  from assms(1) obtain c1 c2 brief where reads:
    "get_prop (creative st) ''ad_copy_1'' = Some c1"
    "get_prop (creative st) ''ad_copy_2'' = Some c2"
    "get_prop (creative st) ''creative_brief'' = Some brief"
    using get_prop_truthy by blast
  have "results_slot st =
     Some (Element ''div'' [(''className'', Str ''results-container'')]
       [Element ''h2'' [] [Child (Str ''Generated Creatives:'')],
        Element ''div'' [(''className'', Str ''creatives-grid'')]
          [CreativeDisplay (Str ''Ad Copy 1'') c1,
           CreativeDisplay (Str ''Ad Copy 2'') c2,
           CreativeDisplay (Str ''Creative Brief'') brief],
        Element ''div'' [(''className'', Str ''feedback-section'')]
          [Element ''h3'' [] [Child (Str ''Simulated Performance Dashboard'')],
           ctr_line score]])"
    using assms by (simp add: results_slot_def results_container_def reads)
  then have "\<exists>title grid heading. results_slot st =
           Some (Element ''div'' [(''className'', Str ''results-container'')]
             [title, grid,
              Element ''div'' [(''className'', Str ''feedback-section'')]
                [heading, ctr_line score]])"
    by simp
  then show ?thesis
    by (simp add: ctr_line_def)
qed

theorem score_interpolated_unchanged_witness:
  "ctr_line (Str ''high'') =
     Element ''p'' []
       [Child (Str ''Predicted Click-Through Rate (CTR): ''), Child (Str ''high''),
        Child (Str ''%'')]
   \<and> text_content (\<lambda>n. []) (ctr_line (Str ''high''))
     = Some (''Predicted Click-Through Rate (CTR): '' @ ''high'' @ ''%'')"
  using score_interpolated_unchanged
    [of "initial_state\<lparr>creative := Obj [(''performance_score'', Str ''high'')]\<rparr>"
        "Str ''high''" "\<lambda>n. []" 0 "''high''"]
  by simp

end
